theory Spec2Isabelle
  imports Complex_Main "HOL-Library.AList"
begin

section \<open>Python values\<close>

text \<open>
  The schema rules, the records and the cells of a batch are dynamically typed Python
  values. A dictionary is an association list in insertion order with string keys;
  \<open>AList.update\<close> is Python's item assignment (an existing key keeps its place, a new
  key goes to the end) and \<open>map_of\<close> is the lookup.

  A float is a rational (every finite double is one), an infinity or NaN, with the
  IEEE comparison: every comparison with NaN is false. How text and integers are
  rounded into a float is left to the interpreter (see \<open>pylib\<close> below).
\<close>

datatype pyfloat = Finite rat | PosInf | NegInf | NaN

datatype pytype = TStr | TFloat | TInt | TBool

datatype pyval =
    PNone
  | PBool bool
  | PInt int
  | PFloat pyfloat
  | PStr string
  | PType pytype
  | PDatetime nat
  | PList "pyval list"
  | PDict "(string \<times> pyval) list"

type_synonym pydict = "(string \<times> pyval) list"

datatype error =
    ValueError string
  | TypeError
  | AttributeError
  | OverflowError
  | IndexError
  | KeyError string
  | OSError
  | ParseError
  | DuckDBError string

fun flt_less :: "pyfloat \<Rightarrow> pyfloat \<Rightarrow> bool" where
  "flt_less NaN _ = False"
| "flt_less _ NaN = False"
| "flt_less (Finite a) (Finite b) = (a < b)"
| "flt_less (Finite a) PosInf = True"
| "flt_less (Finite a) NegInf = False"
| "flt_less PosInf _ = False"
| "flt_less NegInf NegInf = False"
| "flt_less NegInf _ = True"

text \<open>The numeric value of an int, a float or a bool (a bool is an int in Python).\<close>

fun num_of :: "pyval \<Rightarrow> pyfloat option" where
  "num_of (PInt i) = Some (Finite (of_int i))"
| "num_of (PFloat f) = Some f"
| "num_of (PBool b) = Some (Finite (if b then 1 else 0))"
| "num_of _ = None"

text \<open>
  \<open>a < b\<close> and \<open>a > b\<close> where \<open>a\<close> is a number, as in the bound checks: a number
  against a number compares by value, a number against anything else raises TypeError.
\<close>

definition py_lt :: "pyval \<Rightarrow> pyval \<Rightarrow> error + bool" where
  "py_lt a b = (case (num_of a, num_of b) of
                  (Some x, Some y) \<Rightarrow> Inr (flt_less x y)
                | _ \<Rightarrow> Inl TypeError)"

definition py_gt :: "pyval \<Rightarrow> pyval \<Rightarrow> error + bool" where
  "py_gt a b = (case (num_of a, num_of b) of
                  (Some x, Some y) \<Rightarrow> Inr (flt_less y x)
                | _ \<Rightarrow> Inl TypeError)"

text \<open>Truthiness, as \<open>if x:\<close> reads a value.\<close>

fun py_bool :: "pyval \<Rightarrow> bool" where
  "py_bool PNone = False"
| "py_bool (PBool b) = b"
| "py_bool (PInt i) = (i \<noteq> 0)"
| "py_bool (PFloat f) = (f \<noteq> Finite 0)"
| "py_bool (PStr s) = (s \<noteq> [])"
| "py_bool (PType t) = True"
| "py_bool (PDatetime t) = True"
| "py_bool (PList xs) = (xs \<noteq> [])"
| "py_bool (PDict kvs) = (kvs \<noteq> [])"

text \<open>
  The conversions of the interpreter that the source calls and does not define:
  parsing a float or an int from text, rounding an int to a float (None is
  OverflowError), the text of a value that is not a string, and pandas' conversion of
  a column, \<open>pd.to_numeric(column, errors='coerce')\<close>: the converted column (integers
  where pandas keeps the column integer, floats otherwise, NaN where it reads no
  number), or the exception that pandas raises all the same, as OverflowError on an
  int beyond the range of a float.
\<close>

record pylib =
  str_to_float :: "string \<Rightarrow> pyfloat option"
  int_to_float :: "int \<Rightarrow> pyfloat option"
  str_to_int :: "string \<Rightarrow> int option"
  repr :: "pyval \<Rightarrow> string"
  pd_to_numeric :: "pyval list \<Rightarrow> error + pyval list"

definition trunc_rat :: "rat \<Rightarrow> int" where
  "trunc_rat q = (if 0 \<le> q then \<lfloor>q\<rfloor> else \<lceil>q\<rceil>)"

fun py_float :: "pylib \<Rightarrow> pyval \<Rightarrow> error + pyfloat" where
  "py_float lib (PFloat f) = Inr f"
| "py_float lib (PInt i) =
     (case int_to_float lib i of None \<Rightarrow> Inl OverflowError | Some f \<Rightarrow> Inr f)"
| "py_float lib (PBool b) = Inr (Finite (if b then 1 else 0))"
| "py_float lib (PStr s) =
     (case str_to_float lib s of None \<Rightarrow> Inl (ValueError ''could not convert string to float'')
      | Some f \<Rightarrow> Inr f)"
| "py_float lib _ = Inl TypeError"

fun py_int :: "pylib \<Rightarrow> pyval \<Rightarrow> error + int" where
  "py_int lib (PInt i) = Inr i"
| "py_int lib (PBool b) = Inr (if b then 1 else 0)"
| "py_int lib (PFloat (Finite q)) = Inr (trunc_rat q)"
| "py_int lib (PFloat NaN) = Inl (ValueError ''cannot convert float NaN to integer'')"
| "py_int lib (PFloat _) = Inl OverflowError"
| "py_int lib (PStr s) =
     (case str_to_int lib s of None \<Rightarrow> Inl (ValueError ''invalid literal for int()'')
      | Some i \<Rightarrow> Inr i)"
| "py_int lib _ = Inl TypeError"

fun py_str :: "pylib \<Rightarrow> pyval \<Rightarrow> string" where
  "py_str lib (PStr s) = s"
| "py_str lib v = repr lib v"

text \<open>\<open>repr\<close> of a Python value is never the empty text.\<close>

definition lib_ok :: "pylib \<Rightarrow> bool" where
  "lib_ok lib = (\<forall>v. repr lib v \<noteq> [])"

section \<open>Schema rules and validate\_record\<close>

text \<open>
  \<open>self.schemas\<close>: table name to (field name to rules), the rules of a field being the
  dictionary the loader produced (whatever value the configuration held under the
  field). \<open>rules.get\<close> raises AttributeError on a value that is not a dictionary.
\<close>

type_synonym table_schema = "(string \<times> pyval) list"
type_synonym schemas = "(string \<times> table_schema) list"
type_synonym errors = "(string \<times> string) list"

text \<open>\<open>field not in record or record[field] is None or record[field] == ''\<close>\<close>

definition is_blank :: "pydict \<Rightarrow> string \<Rightarrow> bool" where
  "is_blank record field =
     (case map_of record field of
        None \<Rightarrow> True
      | Some v \<Rightarrow> v = PNone \<or> v = PStr [])"

text \<open>\<open>expected_type.__name__\<close>; only a float or an int conversion can fail.\<close>

fun type_name :: "pyval \<Rightarrow> string" where
  "type_name (PType TFloat) = ''float''"
| "type_name (PType TInt) = ''int''"
| "type_name (PType TStr) = ''str''"
| "type_name (PType TBool) = ''bool''"
| "type_name _ = []"

text \<open>\<open>record[field]\<close>\<close>

definition py_item :: "pydict \<Rightarrow> string \<Rightarrow> error + pyval" where
  "py_item record field =
     (case map_of record field of None \<Rightarrow> Inl (KeyError field) | Some v \<Rightarrow> Inr v)"

text \<open>
  The body of the \<open>try\<close>: the conversion chosen by the expected type, stored back into
  the record.
\<close>

definition convert :: "pylib \<Rightarrow> pyval \<Rightarrow> string \<Rightarrow> pydict \<Rightarrow> error + pydict" where
  "convert lib expected_type field record =
     (case py_item record field of
        Inl e \<Rightarrow> Inl e
      | Inr v \<Rightarrow>
          if expected_type = PType TFloat then
            (case py_float lib v of
               Inl e \<Rightarrow> Inl e
             | Inr f \<Rightarrow> Inr (AList.update field (PFloat f) record))
          else if expected_type = PType TInt then
            (case py_int lib v of
               Inl e \<Rightarrow> Inl e
             | Inr i \<Rightarrow> Inr (AList.update field (PInt i) record))
          else if expected_type = PType TStr then
            Inr (AList.update field (PStr (py_str lib v)) record)
          else Inr record)"

text \<open>\<open>except (ValueError, TypeError)\<close>\<close>

fun caught :: "error \<Rightarrow> bool" where
  "caught (ValueError m) = True"
| "caught TypeError = True"
| "caught _ = False"

text \<open>
  The bound checks of one field, after its conversion. A bound that is not a number
  makes the comparison raise, with the record already converted.
\<close>

definition check_min :: "pylib \<Rightarrow> string \<Rightarrow> pydict \<Rightarrow> pyval \<Rightarrow> errors \<Rightarrow> error + errors" where
  "check_min lib field rules v errs =
     (case map_of rules ''min'' of
        None \<Rightarrow> Inr errs
      | Some m \<Rightarrow>
          (case py_lt v m of
             Inl e \<Rightarrow> Inl e
           | Inr True \<Rightarrow> Inr (AList.update field (field @ '' must be at least '' @ py_str lib m) errs)
           | Inr False \<Rightarrow> Inr errs))"

definition check_max :: "pylib \<Rightarrow> string \<Rightarrow> pydict \<Rightarrow> pyval \<Rightarrow> errors \<Rightarrow> error + errors" where
  "check_max lib field rules v errs =
     (case map_of rules ''max'' of
        None \<Rightarrow> Inr errs
      | Some m \<Rightarrow>
          (case py_gt v m of
             Inl e \<Rightarrow> Inl e
           | Inr True \<Rightarrow> Inr (AList.update field (field @ '' must be at most '' @ py_str lib m) errs)
           | Inr False \<Rightarrow> Inr errs))"

definition check_bounds ::
  "pylib \<Rightarrow> string \<Rightarrow> pydict \<Rightarrow> pyval \<Rightarrow> pydict \<Rightarrow> errors \<Rightarrow> error + errors" where
  "check_bounds lib field rules expected_type record errs =
     (case py_item record field of
        Inl e \<Rightarrow> Inl e
      | Inr v \<Rightarrow>
          if (expected_type = PType TInt \<or> expected_type = PType TFloat) \<and> num_of v \<noteq> None then
            (case check_min lib field rules v errs of
               Inl e \<Rightarrow> Inl e
             | Inr errs1 \<Rightarrow> check_max lib field rules v errs1)
          else Inr errs)"

text \<open>
  One turn of the loop over the schema's fields. The result is the exception that left
  the loop (if any), the record as mutated so far and the errors so far.
\<close>

definition validate_field ::
  "pylib \<Rightarrow> string \<Rightarrow> pyval \<Rightarrow> pydict \<Rightarrow> errors \<Rightarrow> error option \<times> pydict \<times> errors" where
  "validate_field lib field rules record errs =
     (case rules of
        PDict rd \<Rightarrow>
          (let required = (case map_of rd ''required'' of None \<Rightarrow> PBool False | Some r \<Rightarrow> r) in
           if py_bool required \<and> is_blank record field then
             (None, record, AList.update field (field @ '' is required'') errs)
           else if is_blank record field then (None, record, errs)
           else
             (let expected_type = (case map_of rd ''type'' of None \<Rightarrow> PNone | Some t \<Rightarrow> t) in
              case (if py_bool expected_type then convert lib expected_type field record
                    else Inr record) of
                Inl e \<Rightarrow>
                  if caught e then
                    (None, record,
                     AList.update field (field @ '' must be a valid '' @ type_name expected_type) errs)
                  else (Some e, record, errs)
              | Inr record' \<Rightarrow>
                  (case check_bounds lib field rd expected_type record' errs of
                     Inl e \<Rightarrow> (Some e, record', errs)
                   | Inr errs' \<Rightarrow> (None, record', errs'))))
      | _ \<Rightarrow> (Some AttributeError, record, errs))"

fun validate_fields ::
  "pylib \<Rightarrow> table_schema \<Rightarrow> pydict \<Rightarrow> errors \<Rightarrow> error option \<times> pydict \<times> errors" where
  "validate_fields lib [] record errs = (None, record, errs)"
| "validate_fields lib ((field, rules) # rest) record errs =
     (case validate_field lib field rules record errs of
        (Some e, record', errs') \<Rightarrow> (Some e, record', errs')
      | (None, record', errs') \<Rightarrow> validate_fields lib rest record' errs')"

text \<open>
  \<open>validate_record\<close> returns the error mapping, or raises; either way the caller's
  record has been converted in place, so the record comes back beside the result.
\<close>

definition validate_record ::
  "pylib \<Rightarrow> schemas \<Rightarrow> string \<Rightarrow> pydict \<Rightarrow> (error + errors) \<times> pydict" where
  "validate_record lib schemas table_name record =
     (case map_of schemas table_name of
        None \<Rightarrow> (Inl (ValueError (''Unknown table: '' @ table_name)), record)
      | Some schema \<Rightarrow>
          (case validate_fields lib schema record [] of
             (Some e, record', errs) \<Rightarrow> (Inl e, record')
           | (None, record', errs) \<Rightarrow> (Inr errs, record')))"

section \<open>Batches: validate\_dataframe and clean\_dataframe\_for\_import\<close>

text \<open>
  A DataFrame is an object on the heap: a caller holds a reference to it, and so may
  several. The same holds for the dictionaries of \<open>row_errors\<close>. A reference is an index
  into the list of allocated objects; allocating appends. The labels of the columns
  of a frame are taken to be distinct, as \<open>read_csv\<close> makes them.
\<close>

record dataframe =
  nrows :: nat
  cols :: "(string \<times> pyval list) list"

record heap =
  frames :: "dataframe list"
  dicts :: "errors list"

text \<open>\<open>df.copy()\<close>: a new object with the same content.\<close>

definition df_copy :: "nat \<Rightarrow> heap \<Rightarrow> nat \<times> heap" where
  "df_copy a h = (length (frames h), h\<lparr>frames := frames h @ [frames h ! a]\<rparr>)"

definition df_has_col :: "dataframe \<Rightarrow> string \<Rightarrow> bool" where
  "df_has_col df col = (map_of (cols df) col \<noteq> None)"

definition df_col :: "dataframe \<Rightarrow> string \<Rightarrow> pyval list" where
  "df_col df col = (case map_of (cols df) col of None \<Rightarrow> [] | Some cells \<Rightarrow> cells)"

definition df_set_col :: "dataframe \<Rightarrow> string \<Rightarrow> pyval list \<Rightarrow> dataframe" where
  "df_set_col df col cells = df\<lparr>cols := AList.update col cells (cols df)\<rparr>"

text \<open>\<open>pd.isna\<close> on one cell.\<close>

definition pd_isna :: "pyval \<Rightarrow> bool" where
  "pd_isna v = (v = PNone \<or> v = PFloat NaN)"

text \<open>\<open>fillna('')\<close> on one cell.\<close>

definition fillna :: "pyval \<Rightarrow> pyval" where
  "fillna v = (if pd_isna v then PStr [] else v)"

text \<open>\<open>str.isspace\<close>, for text of ASCII: not empty and whitespace only.\<close>

definition is_space :: "char \<Rightarrow> bool" where
  "is_space c = (let n = (of_char c :: nat) in (9 \<le> n \<and> n \<le> 13) \<or> (28 \<le> n \<and> n \<le> 32))"

definition py_isspace :: "string \<Rightarrow> bool" where
  "py_isspace s = (s \<noteq> [] \<and> list_all is_space s)"

text \<open>\<open>rules.get('required', False)\<close> as a condition, and \<open>rules.get('type')\<close>.\<close>

definition rules_required :: "pyval \<Rightarrow> error + bool" where
  "rules_required rules =
     (case rules of
        PDict rd \<Rightarrow> Inr (py_bool (case map_of rd ''required'' of None \<Rightarrow> PBool False | Some r \<Rightarrow> r))
      | _ \<Rightarrow> Inl AttributeError)"

definition rules_type :: "pyval \<Rightarrow> error + pyval" where
  "rules_type rules =
     (case rules of
        PDict rd \<Rightarrow> Inr (case map_of rd ''type'' of None \<Rightarrow> PNone | Some t \<Rightarrow> t)
      | _ \<Rightarrow> Inl AttributeError)"

definition rules_item :: "pyval \<Rightarrow> string \<Rightarrow> pyval option" where
  "rules_item rules k = (case rules of PDict rd \<Rightarrow> map_of rd k | _ \<Rightarrow> None)"

fun required_columns :: "table_schema \<Rightarrow> error + string list" where
  "required_columns [] = Inr []"
| "required_columns ((col, rules) # rest) =
     (case rules_required rules of
        Inl e \<Rightarrow> Inl e
      | Inr b \<Rightarrow>
          (case required_columns rest of
             Inl e \<Rightarrow> Inl e
           | Inr cs \<Rightarrow> Inr (if b then col # cs else cs)))"

text \<open>\<open>', '.join(missing_columns)\<close>\<close>

fun join_comma :: "string list \<Rightarrow> string" where
  "join_comma [] = []"
| "join_comma [x] = x"
| "join_comma (x # xs) = x @ '', '' @ join_comma xs"

text \<open>
  \<open>for i in range(len(row_errors)): row_errors[i][col] = msg\<close>: the dictionary that
  the \<open>i\<close>-th reference points to is updated.
\<close>

fun set_all_rows :: "string \<Rightarrow> string \<Rightarrow> nat list \<Rightarrow> errors list \<Rightarrow> errors list" where
  "set_all_rows col msg [] ds = ds"
| "set_all_rows col msg (r # refs) ds =
     set_all_rows col msg refs (ds[r := AList.update col msg (ds ! r)])"

text \<open>
  \<open>for i, val in enumerate(cells): if p(val): row_errors[i][col] = msg; has_errors = True\<close>.
  The test may raise (a bound that is not a number).
\<close>

fun mark_rows ::
  "(pyval \<Rightarrow> error + bool) \<Rightarrow> string \<Rightarrow> string \<Rightarrow> nat list \<Rightarrow> nat \<Rightarrow> pyval list \<Rightarrow>
   errors list \<Rightarrow> bool \<Rightarrow> error option \<times> errors list \<times> bool" where
  "mark_rows p col msg row_errors i [] ds he = (None, ds, he)"
| "mark_rows p col msg row_errors i (val # vals) ds he =
     (case p val of
        Inl e \<Rightarrow> (Some e, ds, he)
      | Inr False \<Rightarrow> mark_rows p col msg row_errors (Suc i) vals ds he
      | Inr True \<Rightarrow>
          if i < length row_errors then
            mark_rows p col msg row_errors (Suc i) vals
              (ds[row_errors ! i := AList.update col msg (ds ! (row_errors ! i))]) True
          else (Some IndexError, ds, he))"

text \<open>
  The branch \<open>expected_type == float\<close> of one column. An exception of
  \<open>pd.to_numeric\<close> leaves the function before the column is assigned.
\<close>

definition float_column ::
  "pylib \<Rightarrow> nat \<Rightarrow> nat list \<Rightarrow> string \<Rightarrow> pyval \<Rightarrow> heap \<Rightarrow> bool \<Rightarrow> error option \<times> heap \<times> bool" where
  "float_column lib v row_errors col rules h he =
     (let df = frames h ! v in
      case pd_to_numeric lib (df_col df col) of
        Inl e \<Rightarrow> (Some e, h, he)
      | Inr cells \<Rightarrow>
          (let h1 = h\<lparr>frames := (frames h)[v := df_set_col df col cells]\<rparr>
           in case rules_required rules of
                Inl e \<Rightarrow> (Some e, h1, he)
              | Inr required \<Rightarrow>
                  (case (if required
                         then mark_rows (\<lambda>c. Inr (pd_isna c)) col (col @ '' must be a valid number'')
                                row_errors 0 cells (dicts h1) he
                         else (None, dicts h1, he)) of
                     (Some e, d1, he1) \<Rightarrow> (Some e, h1\<lparr>dicts := d1\<rparr>, he1)
                   | (None, d1, he1) \<Rightarrow>
                       (case (case rules_item rules ''min'' of
                                None \<Rightarrow> (None, d1, he1)
                              | Some min_val \<Rightarrow>
                                  mark_rows (\<lambda>c. if pd_isna c then Inr False else py_lt c min_val) col
                                    (col @ '' must be at least '' @ py_str lib min_val)
                                    row_errors 0 cells d1 he1) of
                          (Some e, d2, he2) \<Rightarrow> (Some e, h1\<lparr>dicts := d2\<rparr>, he2)
                        | (None, d2, he2) \<Rightarrow>
                            (case (case rules_item rules ''max'' of
                                     None \<Rightarrow> (None, d2, he2)
                                   | Some max_val \<Rightarrow>
                                       mark_rows (\<lambda>c. if pd_isna c then Inr False else py_gt c max_val) col
                                         (col @ '' must be at most '' @ py_str lib max_val)
                                         row_errors 0 cells d2 he2) of
                               (x, d3, he3) \<Rightarrow> (x, h1\<lparr>dicts := d3\<rparr>, he3))))))"

text \<open>
  The branch \<open>expected_type == str\<close> of one column; \<open>astype(str)\<close> is \<open>str\<close> on every
  cell, as pandas 2 converts a column of objects.
\<close>

definition str_column ::
  "pylib \<Rightarrow> nat \<Rightarrow> nat list \<Rightarrow> string \<Rightarrow> pyval \<Rightarrow> heap \<Rightarrow> bool \<Rightarrow> error option \<times> heap \<times> bool" where
  "str_column lib v row_errors col rules h he =
     (let df = frames h ! v;
          cells = map (\<lambda>c. PStr (py_str lib c)) (df_col df col);
          h1 = h\<lparr>frames := (frames h)[v := df_set_col df col cells]\<rparr>
      in case rules_required rules of
           Inl e \<Rightarrow> (Some e, h1, he)
         | Inr required \<Rightarrow>
             (case (if required
                    then mark_rows (\<lambda>c. Inr (c = PStr [] \<or> (case c of PStr s \<Rightarrow> py_isspace s | _ \<Rightarrow> False)))
                           col (col @ '' cannot be empty'') row_errors 0 cells (dicts h1) he
                    else (None, dicts h1, he)) of
                (x, d1, he1) \<Rightarrow> (x, h1\<lparr>dicts := d1\<rparr>, he1)))"

text \<open>One turn of \<open>for col, rules in schema.items()\<close>.\<close>

definition validate_column ::
  "pylib \<Rightarrow> nat \<Rightarrow> nat list \<Rightarrow> string \<Rightarrow> pyval \<Rightarrow> heap \<Rightarrow> bool \<Rightarrow> error option \<times> heap \<times> bool" where
  "validate_column lib v row_errors col rules h he =
     (if \<not> df_has_col (frames h ! v) col then
        (case rules_required rules of
           Inl e \<Rightarrow> (Some e, h, he)
         | Inr True \<Rightarrow>
             (None, h\<lparr>dicts := set_all_rows col (col @ '' is required'') row_errors (dicts h)\<rparr>, True)
         | Inr False \<Rightarrow> (None, h, he))
      else
        (case rules_type rules of
           Inl e \<Rightarrow> (Some e, h, he)
         | Inr expected_type \<Rightarrow>
             if expected_type = PType TFloat then float_column lib v row_errors col rules h he
             else if expected_type = PType TStr then str_column lib v row_errors col rules h he
             else (None, h, he)))"

fun validate_columns ::
  "pylib \<Rightarrow> nat \<Rightarrow> nat list \<Rightarrow> table_schema \<Rightarrow> heap \<Rightarrow> bool \<Rightarrow> error option \<times> heap \<times> bool" where
  "validate_columns lib v row_errors [] h he = (None, h, he)"
| "validate_columns lib v row_errors ((col, rules) # rest) h he =
     (case validate_column lib v row_errors col rules h he of
        (Some e, h', he') \<Rightarrow> (Some e, h', he')
      | (None, h', he') \<Rightarrow> validate_columns lib v row_errors rest h' he')"

text \<open>
  \<open>validate_dataframe(table_name, df)\<close>, \<open>df\<close> being the reference \<open>a\<close>. It returns the
  reference of the validated copy, the list \<open>row_errors\<close> (references to dictionaries)
  and \<open>has_errors\<close>. \<open>[{}] * n\<close> allocates one dictionary and repeats its reference
  \<open>n\<close> times.
\<close>

definition validate_dataframe ::
  "pylib \<Rightarrow> schemas \<Rightarrow> string \<Rightarrow> nat \<Rightarrow> heap \<Rightarrow> (error + nat \<times> nat list \<times> bool) \<times> heap" where
  "validate_dataframe lib schemas table_name a h =
     (case map_of schemas table_name of
        None \<Rightarrow> (Inl (ValueError (''Unknown table: '' @ table_name)), h)
      | Some schema \<Rightarrow>
          (case df_copy a h of
             (v, h1) \<Rightarrow>
               (case required_columns schema of
                  Inl e \<Rightarrow> (Inl e, h1)
                | Inr required \<Rightarrow>
                    (let missing_columns = filter (\<lambda>col. \<not> df_has_col (frames h1 ! v) col) required in
                     if missing_columns \<noteq> [] then
                       (Inl (ValueError (''Missing required columns: '' @ join_comma missing_columns)), h1)
                     else
                       (let d = length (dicts h1);
                            h2 = h1\<lparr>dicts := dicts h1 @ [[]]\<rparr>;
                            row_errors = replicate (nrows (frames h1 ! v)) d
                        in case validate_columns lib v row_errors schema h2 False of
                             (Some e, h3, he) \<Rightarrow> (Inl e, h3)
                           | (None, h3, he) \<Rightarrow> (Inr (v, row_errors, he), h3))))))"

text \<open>The error mappings as the caller reads them through \<open>row_errors\<close>.\<close>

definition row_error_dicts :: "heap \<Rightarrow> nat list \<Rightarrow> errors list" where
  "row_error_dicts h refs = map (\<lambda>r. dicts h ! r) refs"

text \<open>
  \<open>clean_dataframe_for_import(table_name, df)\<close>. Selecting columns builds another new
  frame; the conversions are stored into that one.
\<close>

definition clean_column :: "pylib \<Rightarrow> nat \<Rightarrow> string \<Rightarrow> pyval \<Rightarrow> heap \<Rightarrow> error option \<times> heap" where
  "clean_column lib c col rules h =
     (let df = frames h ! c in
      if df_has_col df col then
        (case rules_type rules of
           Inl e \<Rightarrow> (Some e, h)
         | Inr expected_type \<Rightarrow>
             if expected_type = PType TFloat then
               (case pd_to_numeric lib (df_col df col) of
                  Inl e \<Rightarrow> (Some e, h)
                | Inr cells \<Rightarrow> (None, h\<lparr>frames := (frames h)[c := df_set_col df col cells]\<rparr>))
             else if expected_type = PType TStr then
               (None, h\<lparr>frames := (frames h)[c := df_set_col df col
                                       (map (\<lambda>x. PStr (py_str lib (fillna x))) (df_col df col))]\<rparr>)
             else (None, h))
      else (None, h))"

fun clean_columns :: "pylib \<Rightarrow> nat \<Rightarrow> table_schema \<Rightarrow> heap \<Rightarrow> error option \<times> heap" where
  "clean_columns lib c [] h = (None, h)"
| "clean_columns lib c ((col, rules) # rest) h =
     (case clean_column lib c col rules h of
        (Some e, h') \<Rightarrow> (Some e, h')
      | (None, h') \<Rightarrow> clean_columns lib c rest h')"

definition clean_dataframe_for_import ::
  "pylib \<Rightarrow> schemas \<Rightarrow> string \<Rightarrow> nat \<Rightarrow> heap \<Rightarrow> (error + nat) \<times> heap" where
  "clean_dataframe_for_import lib schemas table_name a h =
     (case map_of schemas table_name of
        None \<Rightarrow> (Inl (ValueError (''Unknown table: '' @ table_name)), h)
      | Some schema \<Rightarrow>
          (case df_copy a h of
             (c0, h1) \<Rightarrow>
               (let valid_columns = map fst schema;
                    df = frames h1 ! c0;
                    c = length (frames h1);
                    h2 = h1\<lparr>frames := frames h1 @
                            [df\<lparr>cols := filter (\<lambda>(col, cells). col \<in> set valid_columns) (cols df)\<rparr>]\<rparr>
                in case clean_columns lib c schema h2 of
                     (Some e, h3) \<Rightarrow> (Inl e, h3)
                   | (None, h3) \<Rightarrow> (Inr c, h3))))"

section \<open>Loading the schema\<close>

text \<open>
  What \<open>_load_schema\<close> reads from outside: whether the path exists, the extension
  \<open>os.path.splitext\<close> finds, whether \<open>open\<close> raises, and what the YAML or the TOML
  parser makes of the content (a parsed document, or the parser's exception).
\<close>

record schema_source =
  path_exists :: bool
  extension :: string
  opened :: "error option"
  yaml_doc :: "error + pyval"
  toml_doc :: "error + pyval"

definition default_fields :: table_schema where
  "default_fields =
     [(''commodity'', PDict [(''type'', PType TStr), (''required'', PBool True)]),
      (''age_group'', PDict [(''type'', PType TStr), (''required'', PBool True)]),
      (''mean_consumption_chronic'',
         PDict [(''type'', PType TFloat), (''required'', PBool False), (''min'', PInt 0)]),
      (''mean_consumption_acute'',
         PDict [(''type'', PType TFloat), (''required'', PBool False), (''min'', PInt 0)]),
      (''percentile_97_chronic'',
         PDict [(''type'', PType TFloat), (''required'', PBool False), (''min'', PInt 0)]),
      (''percentile_97_acute'',
         PDict [(''type'', PType TFloat), (''required'', PBool False), (''min'', PInt 0)]),
      (''notes'', PDict [(''type'', PType TStr), (''required'', PBool False)])]"

definition get_default_schema :: schemas where
  "get_default_schema = [(''food_consumption'', default_fields)]"

text \<open>\<open>str.lower\<close> on the letters A to Z.\<close>

definition py_lower :: "string \<Rightarrow> string" where
  "py_lower s =
     map (\<lambda>c. let n = (of_char c :: nat) in if 65 \<le> n \<and> n \<le> 90 then char_of (n + 32) else c) s"

text \<open>
  The \<open>if/elif\<close> chain on \<open>type_str\<close>: the value stored under \<open>'type'\<close>, or None where
  no branch matches and the rule keeps the name as written.
\<close>

definition convert_type :: "string \<Rightarrow> pyval option" where
  "convert_type type_str =
     (if type_str = ''str'' \<or> type_str = ''string'' then Some (PType TStr)
      else if type_str = ''float'' then Some (PType TFloat)
      else if type_str = ''int'' \<or> type_str = ''integer'' then Some (PType TInt)
      else if type_str = ''bool'' \<or> type_str = ''boolean'' then Some (PType TBool)
      else if type_str = ''date'' then Some (PStr ''date'')
      else if type_str = ''datetime'' then Some (PStr ''datetime'')
      else None)"

text \<open>
  The rules of one field. \<open>rules.copy()\<close> exists on a dictionary and on a list;
  \<open>'type' in rules\<close> is a key test on the one and a member test on the other, where
  \<open>rules['type']\<close> then raises TypeError; \<open>.lower()\<close> exists on a string only.
\<close>

definition process_rules :: "pyval \<Rightarrow> error + pyval" where
  "process_rules rules =
     (case rules of
        PDict rd \<Rightarrow>
          (case map_of rd ''type'' of
             None \<Rightarrow> Inr (PDict rd)
           | Some (PStr t) \<Rightarrow>
               (case convert_type (py_lower t) of
                  None \<Rightarrow> Inr (PDict rd)
                | Some ty \<Rightarrow> Inr (PDict (AList.update ''type'' ty rd)))
           | Some _ \<Rightarrow> Inl AttributeError)
      | PList xs \<Rightarrow> if PStr ''type'' \<in> set xs then Inl TypeError else Inr (PList xs)
      | _ \<Rightarrow> Inl AttributeError)"

fun process_fields :: "(string \<times> pyval) list \<Rightarrow> table_schema \<Rightarrow> error + table_schema" where
  "process_fields [] processed_table = Inr processed_table"
| "process_fields ((field, rules) # rest) processed_table =
     (case process_rules rules of
        Inl e \<Rightarrow> Inl e
      | Inr processed_rules \<Rightarrow>
          process_fields rest (AList.update field processed_rules processed_table))"

fun process_tables :: "(string \<times> pyval) list \<Rightarrow> schemas \<Rightarrow> error + schemas" where
  "process_tables [] processed_schema = Inr processed_schema"
| "process_tables ((table_name, table_schema) # rest) processed_schema =
     (case table_schema of
        PDict items \<Rightarrow>
          (case process_fields items [] of
             Inl e \<Rightarrow> Inl e
           | Inr processed_table \<Rightarrow>
               process_tables rest (AList.update table_name processed_table processed_schema))
      | _ \<Rightarrow> Inl AttributeError)"

definition process_schema :: "pyval \<Rightarrow> error + schemas" where
  "process_schema raw_schema =
     (case raw_schema of
        PDict tables \<Rightarrow> process_tables tables []
      | _ \<Rightarrow> Inl AttributeError)"

text \<open>The \<open>try\<close> block, with its early return for an extension it does not know.\<close>

definition load_schema_try :: "schema_source \<Rightarrow> error + schemas" where
  "load_schema_try src =
     (let file_ext = py_lower (extension src) in
      case opened src of
        Some e \<Rightarrow> Inl e
      | None \<Rightarrow>
          if file_ext = ''.yaml'' \<or> file_ext = ''.yml'' then
            (case yaml_doc src of Inl e \<Rightarrow> Inl e | Inr raw_schema \<Rightarrow> process_schema raw_schema)
          else if file_ext = ''.toml'' then
            (case toml_doc src of Inl e \<Rightarrow> Inl e | Inr raw_schema \<Rightarrow> process_schema raw_schema)
          else Inr get_default_schema)"

text \<open>\<open>_load_schema\<close>: \<open>except Exception\<close> turns every exception of the block into the default.\<close>

definition load_schema :: "schema_source \<Rightarrow> error + schemas" where
  "load_schema src =
     (if \<not> path_exists src then Inr get_default_schema
      else
        (case load_schema_try src of
           Inl e \<Rightarrow> Inr get_default_schema
         | Inr processed_schema \<Rightarrow> Inr processed_schema))"

section \<open>The record store\<close>

text \<open>
  The store is a DuckDB database (\<open>duckdb.connect\<close>) with the two tables that
  \<open>_initialize_db\<close> creates. A row of \<open>food_consumption\<close> is the tuple of its cells in
  the order of the columns; a row of the log \<open>deleted_records\<close> holds its columns
  \<open>table_name\<close> and \<open>record_data\<close> as \<open>tomb_table\<close> and \<open>tomb_data\<close>, the JSON object
  being the dictionary that \<open>json.loads\<close> reads from it. \<open>now\<close> is what
  \<open>CURRENT_TIMESTAMP\<close> yields. Cells hold the values as they were given: the casts
  the engine applies to a value of another type are left out.
\<close>

type_synonym row = "pyval list"

record tombstone =
  original_id :: int
  tomb_table :: string
  tomb_data :: pydict
  deleted_at :: nat

record store =
  food_consumption :: "row list"
  deleted_records :: "tombstone list"
  now :: nat

definition columns :: "string list" where
  "columns = [''id'', ''commodity'', ''age_group'', ''mean_consumption_chronic'',
              ''mean_consumption_acute'', ''percentile_97_chronic'', ''percentile_97_acute'',
              ''notes'', ''version'', ''created_at'', ''updated_at'']"

definition cell :: "row \<Rightarrow> string \<Rightarrow> pyval" where
  "cell r c = (case map_of (zip columns r) c of None \<Rightarrow> PNone | Some v \<Rightarrow> v)"

subsection \<open>The engine at the statements the source executes\<close>

text \<open>
  \<^item> A statement that names a table other than \<open>food_consumption\<close> as its data table is
    answered with an error: the store has no other data table.
  \<^item> \<open>fetchone()\<close> returns the first row of the result as a tuple, or None.
  \<^item> In an INSERT, a column that is left out takes the DEFAULT of its declaration and
    NULL where it has none. \<open>id INTEGER PRIMARY KEY\<close> declares no default and no
    sequence, and a primary key accepts neither NULL nor a value that is already there;
    \<open>commodity\<close> and \<open>age_group\<close> are NOT NULL.
  \<^item> DuckDB has no function \<open>last_insert_rowid()\<close>, and its DELETE has no ORDER BY and
    no LIMIT clause: both statements are rejected.
\<close>

definition table_rows :: "store \<Rightarrow> string \<Rightarrow> error + row list" where
  "table_rows st t =
     (if t = ''food_consumption'' then Inr (food_consumption st)
      else Inl (DuckDBError ''Catalog Error''))"

definition has_id :: "int \<Rightarrow> row \<Rightarrow> bool" where
  "has_id rid r = (cell r ''id'' = PInt rid)"

text \<open>\<open>SELECT * FROM t WHERE id = ?\<close> and \<open>fetchone()\<close>\<close>

definition select_by_id :: "store \<Rightarrow> string \<Rightarrow> int \<Rightarrow> error + row option" where
  "select_by_id st t rid =
     (case table_rows st t of
        Inl e \<Rightarrow> Inl e
      | Inr rows \<Rightarrow> Inr (find (has_id rid) rows))"

text \<open>\<open>SELECT version FROM t WHERE id = ?\<close> and \<open>fetchone()\<close>\<close>

definition select_version :: "store \<Rightarrow> string \<Rightarrow> int \<Rightarrow> error + row option" where
  "select_version st t rid =
     (case table_rows st t of
        Inl e \<Rightarrow> Inl e
      | Inr rows \<Rightarrow> Inr (map_option (\<lambda>r. [cell r ''version'']) (find (has_id rid) rows)))"

definition column_default :: "nat \<Rightarrow> string \<Rightarrow> pyval" where
  "column_default t c =
     (if c = ''version'' then PInt 1
      else if c = ''created_at'' \<or> c = ''updated_at'' then PDatetime t
      else PNone)"

definition not_null_columns :: "string list" where
  "not_null_columns = [''id'', ''commodity'', ''age_group'']"

definition violates :: "row list \<Rightarrow> row \<Rightarrow> bool" where
  "violates others r =
     (list_ex (\<lambda>c. cell r c = PNone) not_null_columns \<or>
      list_ex (\<lambda>x. cell x ''id'' = cell r ''id'') others)"

text \<open>\<open>INSERT INTO t (keys) VALUES (?, ...)\<close> with the values of the dictionary.\<close>

definition insert_row :: "store \<Rightarrow> string \<Rightarrow> pydict \<Rightarrow> error + store" where
  "insert_row st t kvs =
     (if kvs = [] then Inl (DuckDBError ''Parser Error'')
      else
        (case table_rows st t of
           Inl e \<Rightarrow> Inl e
         | Inr rows \<Rightarrow>
             if list_ex (\<lambda>k. k \<notin> set columns) (map fst kvs) then Inl (DuckDBError ''Binder Error'')
             else
               (let r = map (\<lambda>c. case map_of kvs c of None \<Rightarrow> column_default (now st) c | Some v \<Rightarrow> v)
                          columns
                in if violates rows r then Inl (DuckDBError ''Constraint Error'')
                   else Inr (st\<lparr>food_consumption := rows @ [r]\<rparr>))))"

text \<open>\<open>SELECT last_insert_rowid()\<close>\<close>

definition select_last_insert_rowid :: "store \<Rightarrow> error + row option" where
  "select_last_insert_rowid st = Inl (DuckDBError ''Catalog Error'')"

text \<open>
  \<open>UPDATE t SET k = ?, ..., version = ?, updated_at = CURRENT_TIMESTAMP WHERE id = ?\<close>,
  the assignments being those of the dictionary followed by the version.
\<close>

definition update_rows :: "store \<Rightarrow> string \<Rightarrow> int \<Rightarrow> pydict \<Rightarrow> pyval \<Rightarrow> error + store" where
  "update_rows st t rid kvs version =
     (if kvs = [] then Inl (DuckDBError ''Parser Error'')
      else
        (case table_rows st t of
           Inl e \<Rightarrow> Inl e
         | Inr rows \<Rightarrow>
             (let assigned = kvs @ [(''version'', version), (''updated_at'', PDatetime (now st))] in
              if list_ex (\<lambda>k. k \<notin> set columns) (map fst kvs) \<or> \<not> distinct (map fst assigned)
              then Inl (DuckDBError ''Binder Error'')
              else
                (let change = (\<lambda>r. if has_id rid r
                                 then map (\<lambda>c. case map_of assigned c of None \<Rightarrow> cell r c | Some v \<Rightarrow> v)
                                        columns
                                 else r)
                 in if list_ex (\<lambda>r. has_id rid r \<and> violates (filter (\<lambda>x. \<not> has_id rid x) rows) (change r)) rows
                    then Inl (DuckDBError ''Constraint Error'')
                    else Inr (st\<lparr>food_consumption := map change rows\<rparr>)))))"

text \<open>\<open>DELETE FROM t WHERE id = ?\<close>\<close>

definition delete_by_id :: "store \<Rightarrow> string \<Rightarrow> int \<Rightarrow> error + store" where
  "delete_by_id st t rid =
     (case table_rows st t of
        Inl e \<Rightarrow> Inl e
      | Inr rows \<Rightarrow> Inr (st\<lparr>food_consumption := filter (\<lambda>r. \<not> has_id rid r) rows\<rparr>))"

text \<open>\<open>INSERT INTO deleted_records (original_id, table_name, record_data) VALUES (?, ?, ?)\<close>\<close>

definition insert_tombstone :: "store \<Rightarrow> int \<Rightarrow> string \<Rightarrow> pydict \<Rightarrow> store" where
  "insert_tombstone st rid t record_json =
     st\<lparr>deleted_records := deleted_records st @
          [\<lparr>original_id = rid, tomb_table = t, tomb_data = record_json, deleted_at = now st\<rparr>]\<rparr>"

text \<open>
  \<open>SELECT record_data FROM deleted_records WHERE original_id = ? AND table_name = ?
  ORDER BY deleted_at DESC LIMIT 1\<close> and \<open>fetchone()\<close>. Among entries of the same time
  the engine is free to return any; the model returns the one logged first.
\<close>

fun latest :: "tombstone list \<Rightarrow> tombstone option" where
  "latest [] = None"
| "latest (x # xs) =
     (case latest xs of
        None \<Rightarrow> Some x
      | Some y \<Rightarrow> if deleted_at x < deleted_at y then Some y else Some x)"

definition select_latest_tombstone :: "store \<Rightarrow> int \<Rightarrow> string \<Rightarrow> tombstone option" where
  "select_latest_tombstone st oid t =
     latest (filter (\<lambda>x. original_id x = oid \<and> tomb_table x = t) (deleted_records st))"

text \<open>
  \<open>DELETE FROM deleted_records WHERE original_id = ? AND table_name = ?
  ORDER BY deleted_at DESC LIMIT 1\<close>
\<close>

definition delete_latest_tombstone :: "store \<Rightarrow> int \<Rightarrow> string \<Rightarrow> error + store" where
  "delete_latest_tombstone st oid t = Inl (DuckDBError ''Parser Error'')"

subsection \<open>Python on the rows\<close>

text \<open>\<open>record.keys()\<close> on what \<open>fetchone()\<close> returned: a tuple has no \<open>keys\<close>.\<close>

definition tuple_keys :: "row \<Rightarrow> error + string list" where
  "tuple_keys r = Inl AttributeError"

text \<open>\<open>json.dumps\<close> of a dictionary: a datetime or a type is not serializable.\<close>

fun json_ok :: "pyval \<Rightarrow> bool" where
  "json_ok (PDatetime t) = False"
| "json_ok (PType t) = False"
| "json_ok _ = True"

definition json_dumps :: "pydict \<Rightarrow> error + pydict" where
  "json_dumps d = (if list_all (\<lambda>(k, v). json_ok v) d then Inr d else Inl TypeError)"

text \<open>\<open>current_version + 1\<close>: the cell of an INTEGER column is an int or NULL.\<close>

fun py_succ :: "pyval \<Rightarrow> error + pyval" where
  "py_succ (PInt n) = Inr (PInt (n + 1))"
| "py_succ _ = Inl TypeError"

text \<open>\<open>t[0]\<close> on what \<open>fetchone()\<close> returned.\<close>

fun first_of :: "row option \<Rightarrow> error + pyval" where
  "first_of None = Inl TypeError"
| "first_of (Some []) = Inl IndexError"
| "first_of (Some (x # xs)) = Inr x"

subsection \<open>The operations of DatabaseManager\<close>

definition get_record_by_id :: "store \<Rightarrow> string \<Rightarrow> int \<Rightarrow> error + row option" where
  "get_record_by_id st t record_id = select_by_id st t record_id"

definition add_record :: "store \<Rightarrow> string \<Rightarrow> pydict \<Rightarrow> (error + pyval) \<times> store" where
  "add_record st t record_data =
     (if t = ''food_consumption'' then
        (case insert_row st t record_data of
           Inl e \<Rightarrow> (Inl e, st)
         | Inr st1 \<Rightarrow>
             (case select_last_insert_rowid st1 of
                Inl e \<Rightarrow> (Inl e, st1)
              | Inr r \<Rightarrow>
                  (case first_of r of
                     Inl e \<Rightarrow> (Inl e, st1)
                   | Inr new_id \<Rightarrow> (Inr new_id, st1))))
      else (Inr PNone, st))"

definition update_record :: "store \<Rightarrow> string \<Rightarrow> int \<Rightarrow> pydict \<Rightarrow> (error + unit) \<times> store" where
  "update_record st t record_id record_data =
     (if t = ''food_consumption'' then
        (case select_version st t record_id of
           Inl e \<Rightarrow> (Inl e, st)
         | Inr r \<Rightarrow>
             (case first_of r of
                Inl e \<Rightarrow> (Inl e, st)
              | Inr current_version \<Rightarrow>
                  (case py_succ current_version of
                     Inl e \<Rightarrow> (Inl e, st)
                   | Inr v \<Rightarrow>
                       (case update_rows st t record_id record_data v of
                          Inl e \<Rightarrow> (Inl e, st)
                        | Inr st1 \<Rightarrow> (Inr (), st1)))))
      else (Inr (), st))"

definition delete_record :: "store \<Rightarrow> string \<Rightarrow> int \<Rightarrow> (error + bool) \<times> store" where
  "delete_record st t record_id =
     (case get_record_by_id st t record_id of
        Inl e \<Rightarrow> (Inl e, st)
      | Inr None \<Rightarrow> (Inr False, st)
      | Inr (Some record) \<Rightarrow>
          if record = [] then (Inr False, st)
          else
            (case tuple_keys record of
               Inl e \<Rightarrow> (Inl e, st)
             | Inr keys \<Rightarrow>
                 (case json_dumps (zip keys record) of
                    Inl e \<Rightarrow> (Inl e, st)
                  | Inr record_json \<Rightarrow>
                      (let st1 = insert_tombstone st record_id t record_json in
                       case delete_by_id st1 t record_id of
                         Inl e \<Rightarrow> (Inl e, st1)
                       | Inr st2 \<Rightarrow> (Inr True, st2)))))"

definition undo_delete :: "store \<Rightarrow> int \<Rightarrow> string \<Rightarrow> (error + bool) \<times> store" where
  "undo_delete st oid t =
     (case select_latest_tombstone st oid t of
        None \<Rightarrow> (Inr False, st)
      | Some deleted_record \<Rightarrow>
          (case insert_row st t (tomb_data deleted_record) of
             Inl e \<Rightarrow> (Inl e, st)
           | Inr st1 \<Rightarrow>
               (case delete_latest_tombstone st1 oid t of
                  Inl e \<Rightarrow> (Inl e, st1)
                | Inr st2 \<Rightarrow> (Inr True, st2))))"

section \<open>Notions used in the statements\<close>

text \<open>Two heaps hold the same frames but for the one at \<open>v\<close>.\<close>

definition same_frames_but :: "nat \<Rightarrow> heap \<Rightarrow> heap \<Rightarrow> bool" where
  "same_frames_but v h h' =
     (length (frames h') = length (frames h) \<and> (\<forall>b. b \<noteq> v \<longrightarrow> frames h' ! b = frames h ! b))"

section \<open>Example data\<close>

text \<open>
  An interpreter for the examples: it reads the text \<open>2.5\<close> as a float, rounds no
  integer, and writes a value that is not a string as a non-empty text. Its
  \<open>pd.to_numeric\<close> raises OverflowError on a column with an int beyond the range of a
  float, keeps a column of 64-bit integers as it is, and makes floats of any other
  column, NaN where the cell is no number.
\<close>

definition beyond_float :: "pyval \<Rightarrow> bool" where
  "beyond_float v = (case v of PInt i \<Rightarrow> 2 ^ 1024 \<le> \<bar>i\<bar> | _ \<Rightarrow> False)"

definition is_int64 :: "pyval \<Rightarrow> bool" where
  "is_int64 v = (case v of PInt i \<Rightarrow> - (2 ^ 63) \<le> i \<and> i < 2 ^ 63 | _ \<Rightarrow> False)"

definition read_number :: "pyval \<Rightarrow> pyfloat" where
  "read_number v =
     (case v of
        PFloat f \<Rightarrow> f
      | PInt i \<Rightarrow> Finite (of_int i)
      | PStr s \<Rightarrow> (if s = ''2.5'' then Finite (5 / 2) else NaN)
      | _ \<Rightarrow> NaN)"

definition example_to_numeric :: "pyval list \<Rightarrow> error + pyval list" where
  "example_to_numeric cells =
     (if list_ex beyond_float cells then Inl OverflowError
      else if list_all is_int64 cells then Inr cells
      else Inr (map (\<lambda>c. PFloat (read_number c)) cells))"

definition example_lib :: pylib where
  "example_lib =
     \<lparr>str_to_float = (\<lambda>s. if s = ''2.5'' then Some (Finite (5 / 2)) else None),
      int_to_float = (\<lambda>i. Some (Finite (of_int i))),
      str_to_int = (\<lambda>s. None),
      repr = (\<lambda>v. case v of PNone \<Rightarrow> ''None'' | PInt i \<Rightarrow> (if i = 0 then ''0'' else ''int'')
                     | PFloat f \<Rightarrow> (if f = NaN then ''nan'' else ''float'') | _ \<Rightarrow> ''value''),
      pd_to_numeric = example_to_numeric\<rparr>"

definition example_record :: pydict where
  "example_record =
     [(''commodity'', PStr ''Almonds''), (''age_group'', PStr ''Adults''),
      (''mean_consumption_chronic'', PStr ''2.5''), (''mean_consumption_acute'', PNone),
      (''notes'', PStr [])]"

definition example_coerced :: pydict where
  "example_coerced =
     [(''commodity'', PStr ''Almonds''), (''age_group'', PStr ''Adults''),
      (''mean_consumption_chronic'', PFloat (Finite (5 / 2))), (''mean_consumption_acute'', PNone),
      (''notes'', PStr [])]"

text \<open>
  A batch of three rows: the first has no commodity, the second a negative
  consumption, the third nothing wrong; \<open>source\<close> is a column the schema does not know.
\<close>

definition example_frame :: dataframe where
  "example_frame =
     \<lparr>nrows = 3,
      cols = [(''commodity'', [PStr [], PStr ''Apples'', PStr ''Pears'']),
              (''age_group'', [PStr ''Adults'', PStr ''Adults'', PStr ''Adults'']),
              (''mean_consumption_chronic'', [PFloat (Finite 1), PFloat (Finite (- 5)), PStr ''2.5'']),
              (''notes'', [PNone, PStr ''n/a'', PFloat NaN]),
              (''source'', [PStr ''a'', PStr ''b'', PStr ''c''])]\<rparr>"

definition example_heap :: heap where
  "example_heap = \<lparr>frames = [example_frame], dicts = []\<rparr>"

text \<open>
  A table with an integer column, as the loader registers it for \<open>type: int\<close>, a
  batch and a record whose quantity is the text \<open>abc\<close>, and a batch for the default
  schema whose consumption is an int beyond the range of a float.
\<close>

definition stock_schemas :: schemas where
  "stock_schemas = [(''stock'', [(''quantity'', PDict [(''type'', PType TInt)])])]"

definition stock_frame :: dataframe where
  "stock_frame = \<lparr>nrows = 1, cols = [(''quantity'', [PStr ''abc''])]\<rparr>"

definition stock_record :: pydict where
  "stock_record = [(''quantity'', PStr ''abc'')]"

definition huge_frame :: dataframe where
  "huge_frame =
     \<lparr>nrows = 1,
      cols = [(''commodity'', [PStr ''Almonds'']), (''age_group'', [PStr ''Adults'']),
              (''mean_consumption_chronic'', [PInt (2 ^ 1024)])]\<rparr>"

text \<open>
  Configuration sources: a path with no file, a file that cannot be opened, a file of
  another extension, a YAML and a TOML file that their parsers reject, and a YAML and
  a TOML file for one table with a field of the type \<open>Decimal\<close> beside a field of the
  type \<open>string\<close>.
\<close>

definition missing_source :: schema_source where
  "missing_source =
     \<lparr>path_exists = False, extension = ''.yaml'', opened = Some OSError,
      yaml_doc = Inl OSError, toml_doc = Inl OSError\<rparr>"

definition locked_source :: schema_source where
  "locked_source =
     \<lparr>path_exists = True, extension = ''.yaml'', opened = Some OSError,
      yaml_doc = Inl OSError, toml_doc = Inl OSError\<rparr>"

definition ini_source :: schema_source where
  "ini_source =
     \<lparr>path_exists = True, extension = ''.INI'', opened = None,
      yaml_doc = Inl ParseError, toml_doc = Inl ParseError\<rparr>"

definition broken_yaml_source :: schema_source where
  "broken_yaml_source =
     \<lparr>path_exists = True, extension = ''.YAML'', opened = None,
      yaml_doc = Inl ParseError, toml_doc = Inl ParseError\<rparr>"

definition broken_toml_source :: schema_source where
  "broken_toml_source =
     \<lparr>path_exists = True, extension = ''.toml'', opened = None,
      yaml_doc = Inl ParseError, toml_doc = Inl ParseError\<rparr>"

definition decimal_rules :: pydict where
  "decimal_rules = [(''type'', PStr ''Decimal''), (''required'', PBool True)]"

definition prices_document :: pyval where
  "prices_document =
     PDict [(''prices'', PDict [(''amount'', PDict decimal_rules),
                               (''label'', PDict [(''type'', PStr ''string'')])])]"

definition decimal_source :: schema_source where
  "decimal_source =
     \<lparr>path_exists = True, extension = ''.yml'', opened = None,
      yaml_doc = Inr prices_document, toml_doc = Inl ParseError\<rparr>"

definition decimal_toml_source :: schema_source where
  "decimal_toml_source =
     \<lparr>path_exists = True, extension = ''.toml'', opened = None,
      yaml_doc = Inl ParseError, toml_doc = Inr prices_document\<rparr>"

definition prices_schema :: schemas where
  "prices_schema =
     [(''prices'', [(''amount'', PDict decimal_rules),
                    (''label'', PDict [(''type'', PType TStr)])])]"

text \<open>
  Stores: an empty one; one that holds the record 1; and one whose log holds two
  entries for the record 1, logged at the times 4 and 9, while the table is empty.
  \<open>form_record\<close> is a record as the entry form builds it.
\<close>

definition empty_store :: store where
  "empty_store = \<lparr>food_consumption = [], deleted_records = [], now = 5\<rparr>"

definition form_record :: pydict where
  "form_record =
     [(''commodity'', PStr ''Almonds''), (''age_group'', PStr ''Adults''),
      (''mean_consumption_chronic'', PFloat (Finite (5 / 2))), (''mean_consumption_acute'', PNone),
      (''percentile_97_chronic'', PNone), (''percentile_97_acute'', PNone),
      (''notes'', PStr [])]"

definition almonds_row :: row where
  "almonds_row =
     [PInt 1, PStr ''Almonds'', PStr ''Adults'', PFloat (Finite (5 / 2)), PNone, PNone, PNone,
      PStr [], PInt 1, PDatetime 3, PDatetime 3]"

definition example_store :: store where
  "example_store = \<lparr>food_consumption = [almonds_row], deleted_records = [], now = 5\<rparr>"

definition first_deletion :: tombstone where
  "first_deletion =
     \<lparr>original_id = 1, tomb_table = ''food_consumption'',
      tomb_data = [(''id'', PInt 1), (''commodity'', PStr ''Almonds''), (''age_group'', PStr ''Adults''),
                   (''notes'', PStr ''first''), (''version'', PInt 1)],
      deleted_at = 4\<rparr>"

definition second_deletion :: tombstone where
  "second_deletion =
     \<lparr>original_id = 1, tomb_table = ''food_consumption'',
      tomb_data = [(''id'', PInt 1), (''commodity'', PStr ''Almonds''), (''age_group'', PStr ''Adults''),
                   (''notes'', PStr ''second''), (''version'', PInt 2)],
      deleted_at = 9\<rparr>"

definition twice_deleted :: store where
  "twice_deleted =
     \<lparr>food_consumption = [], deleted_records = [first_deletion, second_deletion], now = 12\<rparr>"

definition second_restored :: store where
  "second_restored =
     \<lparr>food_consumption =
        [[PInt 1, PStr ''Almonds'', PStr ''Adults'', PNone, PNone, PNone, PNone, PStr ''second'',
          PInt 2, PDatetime 12, PDatetime 12]],
      deleted_records = [first_deletion, second_deletion], now = 12\<rparr>"

section \<open>Properties of validate\_record\<close>

lemma update_not_Nil: "AList.update k v al \<noteq> []"
  by (cases al) auto

lemma check_min_grow: "check_min lib f rd v es = Inr es1 \<Longrightarrow> es1 = [] \<Longrightarrow> es = []"
  by (auto simp: check_min_def update_not_Nil split: option.splits sum.splits bool.splits)

lemma check_max_grow: "check_max lib f rd v es = Inr es1 \<Longrightarrow> es1 = [] \<Longrightarrow> es = []"
  by (auto simp: check_max_def update_not_Nil split: option.splits sum.splits bool.splits)

lemma check_bounds_grow: "check_bounds lib f rd et r es = Inr es1 \<Longrightarrow> es1 = [] \<Longrightarrow> es = []"
  by (auto simp: check_bounds_def split: sum.splits if_splits dest: check_min_grow check_max_grow)

text \<open>A turn of the loop never takes an error message away.\<close>

lemma validate_field_grow:
  "validate_field lib f rules r es = (x, r1, es1) \<Longrightarrow> es1 = [] \<Longrightarrow> es = []"
  by (auto simp: validate_field_def Let_def update_not_Nil split: pyval.splits if_splits sum.splits
      dest: check_bounds_grow)

lemma validate_fields_grow:
  "validate_fields lib schema r es = (x, r1, es1) \<Longrightarrow> es1 = [] \<Longrightarrow> es = []"
proof (induction schema arbitrary: r es)
  case Nil
  then show ?case by simp
next
  case (Cons a schema)
  obtain f rules where a: "a = (f, rules)" by (cases a)
  obtain y r2 es2 where st: "validate_field lib f rules r es = (y, r2, es2)"
    by (cases "validate_field lib f rules r es") auto
  show ?case
  proof (cases y)
    case None
    with Cons.prems a st have "validate_fields lib schema r2 es2 = (x, r1, es1)" by simp
    then have "es2 = []" using Cons.IH Cons.prems(2) by blast
    then show ?thesis using st validate_field_grow by blast
  next
    case (Some e)
    with Cons.prems a st have "es2 = es1" by simp
    then show ?thesis using st validate_field_grow Cons.prems(2) by blast
  qed
qed

text \<open>A turn of the loop touches the record at its own field only.\<close>

lemma convert_frame:
  "convert lib et f r = Inr r1 \<Longrightarrow> g \<noteq> f \<Longrightarrow> map_of r1 g = map_of r g"
  by (auto simp: convert_def update_conv' split: sum.splits if_splits)

lemma validate_field_frame:
  "validate_field lib f rules r es = (x, r1, es1) \<Longrightarrow> g \<noteq> f \<Longrightarrow> map_of r1 g = map_of r g"
  by (auto simp: validate_field_def Let_def split: pyval.splits if_splits sum.splits
      dest: convert_frame)

lemma validate_fields_frame:
  "validate_fields lib schema r es = (x, r1, es1) \<Longrightarrow> g \<notin> fst ` set schema \<Longrightarrow>
   map_of r1 g = map_of r g"
proof (induction schema arbitrary: r es)
  case Nil
  then show ?case by simp
next
  case (Cons a schema)
  obtain f rules where a: "a = (f, rules)" by (cases a)
  obtain y r2 es2 where st: "validate_field lib f rules r es = (y, r2, es2)"
    by (cases "validate_field lib f rules r es") auto
  have gf: "g \<noteq> f" using Cons.prems(2) a by auto
  have r2: "map_of r2 g = map_of r g" using validate_field_frame[OF st gf] .
  show ?case
  proof (cases y)
    case None
    with Cons.prems a st have "validate_fields lib schema r2 es2 = (x, r1, es1)" by simp
    then have "map_of r1 g = map_of r2 g" using Cons.IH Cons.prems(2) by auto
    then show ?thesis using r2 by simp
  next
    case (Some e)
    with Cons.prems a st have "r2 = r1" by simp
    then show ?thesis using r2 by simp
  qed
qed

lemma check_bounds_cong:
  "map_of r2 f = map_of r1 f \<Longrightarrow> check_bounds lib f rd et r2 es = check_bounds lib f rd et r1 es"
  by (simp add: check_bounds_def py_item_def)

lemma py_str_nonempty: "lib_ok lib \<Longrightarrow> v \<noteq> PStr [] \<Longrightarrow> py_str lib v \<noteq> []"
  by (cases v) (auto simp: lib_ok_def)

text \<open>A converted value converts to itself, and is not blank.\<close>

lemma convert_again:
  assumes "convert lib et f r = Inr r1" and "\<not> is_blank r f" and "lib_ok lib"
    and "map_of r2 f = map_of r1 f"
  shows "convert lib et f r2 = Inr r2 \<and> \<not> is_blank r2 f"
  using assms
  by (auto simp: convert_def py_item_def is_blank_def update_conv' update_triv py_str_nonempty
      split: sum.splits if_splits option.splits)

lemma validate_field_again:
  assumes lib: "lib_ok lib" and v: "validate_field lib f rules r [] = (None, r1, [])"
    and m: "map_of r2 f = map_of r1 f"
  shows "validate_field lib f rules r2 [] = (None, r2, [])"
proof -
  from v obtain rd where rd: "rules = PDict rd"
    by (cases rules) (auto simp: validate_field_def)
  define required where
    "required = (case map_of rd ''required'' of None \<Rightarrow> PBool False | Some q \<Rightarrow> q)"
  define et where "et = (case map_of rd ''type'' of None \<Rightarrow> PNone | Some t \<Rightarrow> t)"
  show ?thesis
  proof (cases "is_blank r f")
    case True
    with v rd have "r1 = r" and nr: "\<not> py_bool required"
      by (auto simp: validate_field_def Let_def required_def update_not_Nil split: if_splits)
    with m True have "is_blank r2 f" by (simp add: is_blank_def)
    with nr rd show ?thesis
      by (simp add: validate_field_def Let_def required_def)
  next
    case False
    define c where "c = (if py_bool et then convert lib et f r else Inr r)"
    from v rd False obtain r' where c: "c = Inr r'"
      and cb: "check_bounds lib f rd et r' [] = Inr []" and r1: "r1 = r'"
      by (auto simp: validate_field_def Let_def et_def c_def update_not_Nil
          split: if_splits sum.splits)
    have c2: "(if py_bool et then convert lib et f r2 else Inr r2) = Inr r2 \<and> \<not> is_blank r2 f"
    proof (cases "py_bool et")
      case True
      with c have "convert lib et f r = Inr r1" by (simp add: c_def r1)
      from convert_again[OF this False lib m] True show ?thesis by simp
    next
      case F: False
      with c have "r1 = r" by (simp add: c_def r1)
      with m False F show ?thesis by (simp add: is_blank_def)
    qed
    have cb2: "check_bounds lib f rd et r2 [] = Inr []"
      using check_bounds_cong[OF m] cb r1 by simp
    show ?thesis
      using c2[unfolded et_def] cb2[unfolded et_def] rd
      by (auto simp: validate_field_def Let_def)
  qed
qed

lemma validate_fields_again:
  assumes "lib_ok lib" and "distinct (map fst schema)"
    and "validate_fields lib schema r [] = (None, r', [])"
  shows "validate_fields lib schema r' [] = (None, r', [])"
  using assms(2,3)
proof (induction schema arbitrary: r)
  case Nil
  then show ?case by simp
next
  case (Cons a schema)
  obtain f rules where a: "a = (f, rules)" by (cases a)
  obtain y r1 es1 where st: "validate_field lib f rules r [] = (y, r1, es1)"
    by (cases "validate_field lib f rules r []") auto
  from Cons.prems(2) a st have y: "y = None"
    and rest: "validate_fields lib schema r1 es1 = (None, r', [])"
    by (auto split: option.splits)
  from validate_fields_grow[OF rest] have es1: "es1 = []" by simp
  from Cons.prems(1) a have d: "distinct (map fst schema)" and nf: "f \<notin> fst ` set schema"
    by auto
  have ih: "validate_fields lib schema r' [] = (None, r', [])"
    using Cons.IH[OF d] rest es1 by simp
  have "map_of r' f = map_of r1 f"
    using validate_fields_frame[OF rest nf] .
  from validate_field_again[OF assms(1) _ this] st y es1
  have "validate_field lib f rules r' [] = (None, r', [])" by simp
  with ih a show ?case by simp
qed

text \<open>
  C6. For a registered table (its fields being the keys of a dictionary, hence distinct),
  if \<open>validate_record\<close> returns the empty error mapping and leaves the record \<open>r'\<close>
  behind, then \<open>validate_record\<close> on \<open>r'\<close> returns the empty error mapping again and
  leaves \<open>r'\<close> as it is.
\<close>

theorem validate_record_idempotent:
  assumes "lib_ok lib"
    and "map_of schemas t = Some schema" and "distinct (map fst schema)"
    and "validate_record lib schemas t r = (Inr [], r')"
  shows "validate_record lib schemas t r' = (Inr [], r')"
proof -
  from assms(2,4) have "validate_fields lib schema r [] = (None, r', [])"
    by (auto simp: validate_record_def split: prod.splits option.splits)
  from validate_fields_again[OF assms(1,3) this] assms(2) show ?thesis
    by (simp add: validate_record_def)
qed

theorem validate_record_idempotent_witness:
  "validate_record example_lib get_default_schema ''food_consumption'' example_record
     = (Inr [], example_coerced) \<and>
   validate_record example_lib get_default_schema ''food_consumption'' example_coerced
     = (Inr [], example_coerced)"
proof -
  have l: "lib_ok example_lib"
    by (auto simp: lib_ok_def example_lib_def split: pyval.splits)
  have s: "map_of get_default_schema ''food_consumption'' = Some default_fields"
    by (simp add: get_default_schema_def)
  have d: "distinct (map fst default_fields)"
    by (simp add: default_fields_def)
  have v: "validate_record example_lib get_default_schema ''food_consumption'' example_record
             = (Inr [], example_coerced)"
    by code_simp
  from validate_record_idempotent[OF l s d v] v show ?thesis by simp
qed

section \<open>Properties of the batch operations\<close>

lemma same_frames_but_refl: "same_frames_but v h h"
  by (simp add: same_frames_but_def)

lemma same_frames_but_trans:
  "same_frames_but v h h1 \<Longrightarrow> same_frames_but v h1 h2 \<Longrightarrow> same_frames_but v h h2"
  by (simp add: same_frames_but_def)

lemma float_column_frames:
  "float_column lib v re col rules h he = (x, h', he') \<Longrightarrow> same_frames_but v h h'"
  by (auto simp: float_column_def Let_def same_frames_but_def
      split: sum.splits prod.splits option.splits if_splits)

lemma str_column_frames:
  "str_column lib v re col rules h he = (x, h', he') \<Longrightarrow> same_frames_but v h h'"
  by (auto simp: str_column_def Let_def same_frames_but_def
      split: sum.splits prod.splits option.splits if_splits)

lemma validate_column_frames:
  "validate_column lib v re col rules h he = (x, h', he') \<Longrightarrow> same_frames_but v h h'"
  by (auto simp: validate_column_def same_frames_but_refl
      split: sum.splits if_splits bool.splits dest: float_column_frames str_column_frames)
     (auto simp: same_frames_but_def)

lemma validate_columns_frames:
  "validate_columns lib v re schema h he = (x, h', he') \<Longrightarrow> same_frames_but v h h'"
proof (induction schema arbitrary: h he)
  case Nil
  then show ?case by (simp add: same_frames_but_refl)
next
  case (Cons a schema)
  obtain col rules where a: "a = (col, rules)" by (cases a)
  obtain y h1 he1 where st: "validate_column lib v re col rules h he = (y, h1, he1)"
    by (cases "validate_column lib v re col rules h he") auto
  have s1: "same_frames_but v h h1" using validate_column_frames[OF st] .
  show ?case
  proof (cases y)
    case None
    with Cons.prems a st have "validate_columns lib v re schema h1 he1 = (x, h', he')" by simp
    from Cons.IH[OF this] s1 show ?thesis by (rule same_frames_but_trans[rotated])
  next
    case (Some e)
    with Cons.prems a st have "h1 = h'" by simp
    with s1 show ?thesis by simp
  qed
qed

lemma validate_dataframe_frames:
  assumes "validate_dataframe lib schemas t a h = (res, h')" and "b < length (frames h)"
  shows "frames h' ! b = frames h ! b"
  using assms
  by (auto simp: validate_dataframe_def df_copy_def Let_def same_frames_but_def nth_append
      split: option.splits sum.splits if_splits prod.splits dest!: validate_columns_frames)

lemma validate_dataframe_fresh:
  assumes "validate_dataframe lib schemas t a h = (Inr (v, re, he), h')"
  shows "v = length (frames h) \<and> v < length (frames h')"
  using assms
  by (auto simp: validate_dataframe_def df_copy_def Let_def same_frames_but_def nth_append
      split: option.splits sum.splits if_splits prod.splits dest!: validate_columns_frames)

lemma clean_column_frames:
  "clean_column lib c col rules h = (x, h') \<Longrightarrow> same_frames_but c h h'"
  by (auto simp: clean_column_def Let_def same_frames_but_def split: sum.splits if_splits)

lemma clean_columns_frames:
  "clean_columns lib c schema h = (x, h') \<Longrightarrow> same_frames_but c h h'"
proof (induction schema arbitrary: h)
  case Nil
  then show ?case by (simp add: same_frames_but_refl)
next
  case (Cons a schema)
  obtain col rules where a: "a = (col, rules)" by (cases a)
  obtain y h1 where st: "clean_column lib c col rules h = (y, h1)"
    by (cases "clean_column lib c col rules h") auto
  have s1: "same_frames_but c h h1" using clean_column_frames[OF st] .
  show ?case
  proof (cases y)
    case None
    with Cons.prems a st have "clean_columns lib c schema h1 = (x, h')" by simp
    from Cons.IH[OF this] s1 show ?thesis by (rule same_frames_but_trans[rotated])
  next
    case (Some e)
    with Cons.prems a st have "h1 = h'" by simp
    with s1 show ?thesis by simp
  qed
qed

lemma clean_dataframe_frames:
  assumes "clean_dataframe_for_import lib schemas t a h = (res, h')" and "b < length (frames h)"
  shows "frames h' ! b = frames h ! b"
  using assms
  by (auto simp: clean_dataframe_for_import_def df_copy_def Let_def same_frames_but_def nth_append
      split: option.splits sum.splits if_splits prod.splits dest!: clean_columns_frames)

lemma clean_dataframe_fresh:
  assumes "clean_dataframe_for_import lib schemas t a h = (Inr c, h')"
  shows "c = Suc (length (frames h)) \<and> c < length (frames h')"
  using assms
  by (auto simp: clean_dataframe_for_import_def df_copy_def Let_def same_frames_but_def nth_append
      split: option.splits sum.splits if_splits prod.splits dest!: clean_columns_frames)


text \<open>
  C10. \<open>validate_dataframe\<close> and \<open>clean_dataframe_for_import\<close> leave the caller's batch
  as it was, whether they return or raise, and the batch they return is another object
  than the caller's.
\<close>

theorem batch_operations_copy:
  assumes "a < length (frames h)"
  shows "frames (snd (validate_dataframe lib schemas t a h)) ! a = frames h ! a \<and>
         frames (snd (clean_dataframe_for_import lib schemas t a h)) ! a = frames h ! a \<and>
         (\<forall>v re he. fst (validate_dataframe lib schemas t a h) = Inr (v, re, he) \<longrightarrow> v \<noteq> a) \<and>
         (\<forall>c. fst (clean_dataframe_for_import lib schemas t a h) = Inr c \<longrightarrow> c \<noteq> a)"
proof -
  obtain r1 h1 where v: "validate_dataframe lib schemas t a h = (r1, h1)"
    by (cases "validate_dataframe lib schemas t a h")
  obtain r2 h2 where c: "clean_dataframe_for_import lib schemas t a h = (r2, h2)"
    by (cases "clean_dataframe_for_import lib schemas t a h")
  have "frames h1 ! a = frames h ! a"
    using validate_dataframe_frames[OF v assms] .
  moreover have "frames h2 ! a = frames h ! a"
    using clean_dataframe_frames[OF c assms] .
  moreover have "\<forall>v re he. r1 = Inr (v, re, he) \<longrightarrow> v \<noteq> a"
    using validate_dataframe_fresh v assms by fastforce
  moreover have "\<forall>c. r2 = Inr c \<longrightarrow> c \<noteq> a"
    using clean_dataframe_fresh c assms by fastforce
  ultimately show ?thesis using v c by simp
qed

theorem batch_operations_copy_witness:
  "(0::nat) < length (frames example_heap) \<and>
   frames (snd (validate_dataframe example_lib get_default_schema ''food_consumption'' 0 example_heap)) ! 0
     = example_frame \<and>
   frames (snd (clean_dataframe_for_import example_lib get_default_schema ''food_consumption'' 0 example_heap)) ! 0
     = example_frame \<and>
   df_col (frames (snd (validate_dataframe example_lib get_default_schema ''food_consumption'' 0 example_heap)) ! 1)
       ''mean_consumption_chronic''
     = [PFloat (Finite 1), PFloat (Finite (- 5)), PFloat (Finite (5 / 2))]"
proof -
  have a: "(0::nat) < length (frames example_heap)"
    by (simp add: example_heap_def)
  have f: "frames example_heap ! 0 = example_frame"
    by (simp add: example_heap_def)
  have e: "df_col (frames (snd (validate_dataframe example_lib get_default_schema ''food_consumption'' 0 example_heap)) ! 1)
       ''mean_consumption_chronic''
     = [PFloat (Finite 1), PFloat (Finite (- 5)), PFloat (Finite (5 / 2))]"
    by code_simp
  from batch_operations_copy[OF a, of example_lib get_default_schema "''food_consumption''"] a f e
  show ?thesis by simp
qed

text \<open>
  C8. \<open>clean_dataframe_for_import\<close> on a batch for the table with the integer column:
  the text \<open>abc\<close> in the column comes back as it went in, neither a number nor the
  missing-value marker, where \<open>validate_record\<close> on the same table does convert to int
  and reports that the text is none.
\<close>

theorem clean_dataframe_skips_int_column:
  "clean_dataframe_for_import example_lib stock_schemas ''stock'' 0 \<lparr>frames = [stock_frame], dicts = []\<rparr>
     = (Inr 2, \<lparr>frames = [stock_frame, stock_frame, stock_frame], dicts = []\<rparr>) \<and>
   df_col stock_frame ''quantity'' = [PStr ''abc''] \<and>
   validate_record example_lib stock_schemas ''stock'' stock_record
     = (Inr [(''quantity'', ''quantity must be a valid int'')], stock_record)"
  by code_simp

text \<open>
  With an interpreter whose \<open>pd.to_numeric\<close> raises on an int beyond the range of a
  float, \<open>clean_dataframe_for_import\<close> raises on a batch that holds one in a float
  column: \<open>errors='coerce'\<close> does not catch it.
\<close>

lemma clean_dataframe_overflow:
  "fst (clean_dataframe_for_import example_lib get_default_schema ''food_consumption'' 0
          \<lparr>frames = [huge_frame], dicts = []\<rparr>)
     = Inl OverflowError"
  by code_simp

text \<open>
  Whatever the batch, the references that \<open>validate_dataframe\<close> returns for its rows
  are all the reference of the one dictionary that \<open>[{}] * n\<close> allocated.
\<close>

lemma validate_dataframe_one_dictionary:
  "validate_dataframe lib schemas t a h = (Inr (v, row_errors, he), h') \<Longrightarrow>
   row_errors = replicate (nrows (frames h ! a)) (length (dicts h))"
  by (auto simp: validate_dataframe_def df_copy_def Let_def nth_append
      split: option.splits sum.splits if_splits prod.splits)

text \<open>
  C1. On the batch of three rows, \<open>validate_dataframe\<close> returns three references to
  one and the same dictionary: the row without a commodity, the row with the negative
  consumption and the row with nothing wrong all read both messages.
\<close>

theorem validate_dataframe_rows_share_errors:
  "fst (validate_dataframe example_lib get_default_schema ''food_consumption'' 0 example_heap)
     = Inr (1, [0, 0, 0], True) \<and>
   row_error_dicts
       (snd (validate_dataframe example_lib get_default_schema ''food_consumption'' 0 example_heap))
       [0, 0, 0]
     = replicate 3
         [(''commodity'', ''commodity cannot be empty''),
          (''mean_consumption_chronic'', ''mean_consumption_chronic must be at least 0'')]"
  by code_simp


section \<open>Properties of the schema loader\<close>

text \<open>
  \<open>_load_schema\<close> raises on no configuration source, and returns the default schema
  when the file is missing, when \<open>open\<close> raises, when the extension is none of
  \<open>.yaml\<close>, \<open>.yml\<close> and \<open>.toml\<close>, and when the parser of the format raises or the
  parsed document is not a mapping.
\<close>

lemma load_schema_returns: "\<exists>s. load_schema src = Inr s"
  by (simp add: load_schema_def split: sum.splits)

lemma load_schema_missing_file:
  "\<not> path_exists src \<Longrightarrow> load_schema src = Inr get_default_schema"
  by (simp add: load_schema_def)

lemma load_schema_try_failed:
  "load_schema_try src = Inl e \<Longrightarrow> load_schema src = Inr get_default_schema"
  by (simp add: load_schema_def)

lemma load_schema_not_opened:
  "opened src \<noteq> None \<Longrightarrow> load_schema src = Inr get_default_schema"
  by (auto simp: load_schema_def load_schema_try_def Let_def)

lemma load_schema_other_extension:
  "py_lower (extension src) \<notin> {''.yaml'', ''.yml'', ''.toml''} \<Longrightarrow>
   load_schema src = Inr get_default_schema"
  by (auto simp: load_schema_def load_schema_try_def Let_def split: option.splits sum.splits)

lemma load_schema_yaml_no_mapping:
  "py_lower (extension src) \<in> {''.yaml'', ''.yml''} \<Longrightarrow>
   \<forall>tables. yaml_doc src \<noteq> Inr (PDict tables) \<Longrightarrow>
   load_schema src = Inr get_default_schema"
  by (auto simp: load_schema_def load_schema_try_def process_schema_def Let_def
      split: option.splits sum.splits pyval.splits)

lemma load_schema_toml_no_mapping:
  "py_lower (extension src) = ''.toml'' \<Longrightarrow>
   \<forall>tables. toml_doc src \<noteq> Inr (PDict tables) \<Longrightarrow>
   load_schema src = Inr get_default_schema"
  by (auto simp: load_schema_def load_schema_try_def process_schema_def Let_def
      split: option.splits sum.splits pyval.splits)

lemma load_schema_fallback_examples:
  "load_schema missing_source = Inr get_default_schema \<and>
   load_schema locked_source = Inr get_default_schema \<and>
   load_schema ini_source = Inr get_default_schema \<and>
   load_schema broken_yaml_source = Inr get_default_schema \<and>
   load_schema broken_toml_source = Inr get_default_schema"
  by code_simp

text \<open>
  Whatever else a rule holds: with a type name that no branch of the chain matches,
  the rule is taken over as it was written, and nothing is raised.
\<close>

lemma process_rules_unknown_type:
  "map_of rd ''type'' = Some (PStr tn) \<Longrightarrow> convert_type (py_lower tn) = None \<Longrightarrow>
   process_rules (PDict rd) = Inr (PDict rd)"
  by (simp add: process_rules_def)

text \<open>
  C7. \<open>_load_schema\<close> on a YAML and on a TOML file whose table has a field of the type
  \<open>Decimal\<close>, a name that no branch of the chain matches: the schema of the file comes
  back, \<open>string\<close> converted and \<open>Decimal\<close> left as the text it was, and not the default
  schema, which is what a file of another extension brings.
\<close>

theorem load_schema_keeps_unknown_type:
  "convert_type (py_lower ''Decimal'') = None \<and>
   load_schema decimal_source = Inr prices_schema \<and>
   load_schema decimal_toml_source = Inr prices_schema \<and>
   prices_schema \<noteq> get_default_schema \<and>
   load_schema ini_source = Inr get_default_schema"
  by code_simp

section \<open>The record store at its operations\<close>

text \<open>
  \<open>update_record\<close> on an id that no row has: \<open>fetchone()\<close> is None, \<open>None[0]\<close> raises
  TypeError, and no statement has changed the store.
\<close>

lemma update_record_missing_id:
  "find (has_id rid) (food_consumption st) = None \<Longrightarrow>
   update_record st ''food_consumption'' rid record_data = (Inl TypeError, st)"
  by (simp add: update_record_def select_version_def table_rows_def)

text \<open>
  C2. \<open>add_record\<close> with a record of the entry form: the INSERT names no id, the
  column has no default, and the engine rejects the row; nothing is stored and no id
  comes back. With an id given by the caller the row is stored, and the statement that
  asks for the new id is rejected.
\<close>

theorem add_record_assigns_no_id:
  "add_record empty_store ''food_consumption'' form_record
     = (Inl (DuckDBError ''Constraint Error''), empty_store) \<and>
   add_record empty_store ''food_consumption'' ((''id'', PInt 1) # form_record)
     = (Inl (DuckDBError ''Catalog Error''),
        empty_store\<lparr>food_consumption :=
          [[PInt 1, PStr ''Almonds'', PStr ''Adults'', PFloat (Finite (5 / 2)), PNone, PNone, PNone,
            PStr [], PInt 1, PDatetime 5, PDatetime 5]]\<rparr>)"
  by code_simp

text \<open>
  C3. \<open>update_record\<close> on the id 7, which the table does not hold: TypeError leaves
  the function, and the store is as it was.
\<close>

theorem update_record_missing_id_raises:
  "update_record example_store ''food_consumption'' 7 [(''notes'', PStr ''edited'')]
     = (Inl TypeError, example_store)"
  by code_simp

text \<open>
  C4. \<open>delete_record\<close> on the record 1, which the table holds: \<open>record.keys()\<close> on the
  tuple raises AttributeError before anything is logged or deleted; \<open>undo_delete\<close>
  then finds no entry for the record and returns False.
\<close>

theorem delete_record_raises:
  "get_record_by_id example_store ''food_consumption'' 1 = Inr (Some almonds_row) \<and>
   delete_record example_store ''food_consumption'' 1 = (Inl AttributeError, example_store) \<and>
   undo_delete example_store 1 ''food_consumption'' = (Inr False, example_store)"
  by code_simp

text \<open>
  C5. \<open>undo_delete\<close> with two entries logged for the record 1: the entry of the time 9
  is read and its record inserted, then the DELETE with ORDER BY and LIMIT is rejected,
  so the call raises and both entries stay in the log. The next call reads the same
  entry again, and its INSERT fails on the primary key.
\<close>

theorem undo_delete_keeps_tombstone:
  "select_latest_tombstone twice_deleted 1 ''food_consumption'' = Some second_deletion \<and>
   undo_delete twice_deleted 1 ''food_consumption''
     = (Inl (DuckDBError ''Parser Error''), second_restored) \<and>
   deleted_records second_restored = [first_deletion, second_deletion] \<and>
   undo_delete second_restored 1 ''food_consumption''
     = (Inl (DuckDBError ''Constraint Error''), second_restored)"
  by code_simp

end
